theory Spec2Isabelle
  imports Main
begin

section \<open>Values and constants of the native module\<close>

text \<open>
  The module is one C file with two JNI entry points, \<open>nOpen\<close> and \<open>nClose\<close>, and one
  helper, \<open>throwIllegalStateException\<close>. Everything else it does is a call into the
  operating system (file mappings), the C library (\<open>malloc\<close>, \<open>free\<close>) or the Java
  runtime (JNI). Handles, addresses and Java references are numbers; the null pointer
  and the null reference are \<open>0\<close>. A \<open>jlong\<close> that is cast to a pointer is the address of
  the same number. A \<open>const char*\<close> is a string or the null pointer.
\<close>

type_synonym HANDLE = int
type_synonym ptr = int
type_synonym jlong = int
type_synonym jobject = nat
type_synonym jclass = nat
type_synonym jmethodID = nat
type_synonym cstr = "string option"

abbreviation NULL :: "'a::zero" where
  "NULL \<equiv> 0"

definition MUMBLE_LINK_BYTES :: nat where
  "MUMBLE_LINK_BYTES = 5460"

text \<open>The constants of \<open>windows.h\<close> that the file uses, by name.\<close>

definition INVALID_HANDLE_VALUE :: HANDLE where
  "INVALID_HANDLE_VALUE = - 1"

datatype access = FILE_MAP_READ | FILE_MAP_WRITE

datatype protect = PAGE_READONLY | PAGE_READWRITE

record GW2MLinstance =
  hFileMapping :: HANDLE
  linkedMem :: ptr

section \<open>External calls, their record and the environment\<close>

text \<open>
  Every external call is recorded with its arguments and the value it returned, in the
  order the calls are made.
\<close>

datatype event =
    Ev_GetStringUTFChars jobject cstr
  | Ev_ReleaseStringUTFChars jobject cstr
  | Ev_OpenFileMappingA access bool cstr HANDLE
  | Ev_CreateFileMappingA HANDLE ptr protect nat nat cstr HANDLE
  | Ev_MapViewOfFile HANDLE access nat nat nat ptr
  | Ev_UnmapViewOfFile ptr bool
  | Ev_CloseHandle HANDLE bool
  | Ev_malloc ptr
  | Ev_free ptr
  | Ev_NewDirectByteBuffer ptr nat jobject
  | Ev_FindClass string jclass
  | Ev_GetMethodID jclass string string jmethodID
  | Ev_NewObject jclass jmethodID ptr jobject jobject jobject
  | Ev_ThrowNew jclass string int

text \<open>
  The environment answers each call. An answer may depend on the arguments and on when
  the call is made (the number of external calls made before it), so the same call made
  twice may be answered differently, as by a real system. The environment also holds the
  memory of the process outside the live tracking structures: what a read of either
  field through an address yields there, a value (stale or foreign bytes) or nothing,
  when the address is not readable and the read is an access violation.
\<close>

record environment =
  r_GetStringUTFChars :: "nat \<Rightarrow> jobject \<Rightarrow> cstr"
  r_OpenFileMappingA :: "nat \<Rightarrow> access \<Rightarrow> bool \<Rightarrow> cstr \<Rightarrow> HANDLE"
  r_CreateFileMappingA :: "nat \<Rightarrow> HANDLE \<Rightarrow> ptr \<Rightarrow> protect \<Rightarrow> nat \<Rightarrow> nat \<Rightarrow> cstr \<Rightarrow> HANDLE"
  r_MapViewOfFile :: "nat \<Rightarrow> HANDLE \<Rightarrow> access \<Rightarrow> nat \<Rightarrow> nat \<Rightarrow> nat \<Rightarrow> ptr"
  r_UnmapViewOfFile :: "nat \<Rightarrow> ptr \<Rightarrow> bool"
  r_CloseHandle :: "nat \<Rightarrow> HANDLE \<Rightarrow> bool"
  r_malloc :: "nat \<Rightarrow> ptr"
  r_NewDirectByteBuffer :: "nat \<Rightarrow> ptr \<Rightarrow> nat \<Rightarrow> jobject"
  r_FindClass :: "nat \<Rightarrow> string \<Rightarrow> jclass"
  r_GetMethodID :: "nat \<Rightarrow> jclass \<Rightarrow> string \<Rightarrow> string \<Rightarrow> jmethodID"
  r_NewObject :: "nat \<Rightarrow> jclass \<Rightarrow> jmethodID \<Rightarrow> ptr \<Rightarrow> jobject \<Rightarrow> jobject \<Rightarrow> jobject"
  r_ThrowNew :: "nat \<Rightarrow> jclass \<Rightarrow> string \<Rightarrow> int"
  r_load_linkedMem :: "nat \<Rightarrow> ptr \<Rightarrow> ptr option"
  r_load_hFileMapping :: "nat \<Rightarrow> ptr \<Rightarrow> HANDLE option"

text \<open>
  The state of the process as far as the module touches it: the tracking structures
  that are allocated on the C heap, by address, and the record of external calls.
\<close>

record world =
  heap :: "ptr \<rightharpoonup> GW2MLinstance"
  trace :: "event list"

text \<open>
  Undefined behaviour of C is a fault: the model stops there with the state reached. A
  fault is not a Java exception and not a return. \<open>InvalidDereference\<close> is an access
  through an address that cannot be accessed; \<open>InvalidFree\<close> is a call of \<open>free\<close> on an
  address that is neither null nor a live allocation.
\<close>

datatype fault = InvalidDereference ptr | InvalidFree ptr

definition emit :: "event \<Rightarrow> world \<Rightarrow> world" where
  "emit e w = w\<lparr>trace := trace w @ [e]\<rparr>"

definition GetStringUTFChars :: "environment \<Rightarrow> jobject \<Rightarrow> world \<Rightarrow> cstr \<times> world" where
  "GetStringUTFChars E s w =
     (let r = r_GetStringUTFChars E (length (trace w)) s
      in (r, emit (Ev_GetStringUTFChars s r) w))"

definition ReleaseStringUTFChars :: "environment \<Rightarrow> jobject \<Rightarrow> cstr \<Rightarrow> world \<Rightarrow> world" where
  "ReleaseStringUTFChars E s chars w = emit (Ev_ReleaseStringUTFChars s chars) w"

definition OpenFileMappingA ::
  "environment \<Rightarrow> access \<Rightarrow> bool \<Rightarrow> cstr \<Rightarrow> world \<Rightarrow> HANDLE \<times> world" where
  "OpenFileMappingA E acc inherit name w =
     (let r = r_OpenFileMappingA E (length (trace w)) acc inherit name
      in (r, emit (Ev_OpenFileMappingA acc inherit name r) w))"

definition CreateFileMappingA ::
  "environment \<Rightarrow> HANDLE \<Rightarrow> ptr \<Rightarrow> protect \<Rightarrow> nat \<Rightarrow> nat \<Rightarrow> cstr \<Rightarrow> world \<Rightarrow> HANDLE \<times> world" where
  "CreateFileMappingA E file attrs prot size_high size_low name w =
     (let r = r_CreateFileMappingA E (length (trace w)) file attrs prot size_high size_low name
      in (r, emit (Ev_CreateFileMappingA file attrs prot size_high size_low name r) w))"

definition MapViewOfFile ::
  "environment \<Rightarrow> HANDLE \<Rightarrow> access \<Rightarrow> nat \<Rightarrow> nat \<Rightarrow> nat \<Rightarrow> world \<Rightarrow> ptr \<times> world" where
  "MapViewOfFile E h acc off_high off_low n w =
     (let r = r_MapViewOfFile E (length (trace w)) h acc off_high off_low n
      in (r, emit (Ev_MapViewOfFile h acc off_high off_low n r) w))"

definition UnmapViewOfFile :: "environment \<Rightarrow> ptr \<Rightarrow> world \<Rightarrow> bool \<times> world" where
  "UnmapViewOfFile E p w =
     (let r = r_UnmapViewOfFile E (length (trace w)) p in (r, emit (Ev_UnmapViewOfFile p r) w))"

definition CloseHandle :: "environment \<Rightarrow> HANDLE \<Rightarrow> world \<Rightarrow> bool \<times> world" where
  "CloseHandle E h w =
     (let r = r_CloseHandle E (length (trace w)) h in (r, emit (Ev_CloseHandle h r) w))"

definition malloc :: "environment \<Rightarrow> world \<Rightarrow> ptr \<times> world" where
  "malloc E w = (let r = r_malloc E (length (trace w)) in (r, emit (Ev_malloc r) w))"

text \<open>
  \<open>free\<close> is always called and recorded. By the contract of the C library it releases a
  live allocation, does nothing for the null pointer, and is undefined for any other
  address.
\<close>

definition free :: "ptr \<Rightarrow> world \<Rightarrow> (fault \<times> world) + (unit \<times> world)" where
  "free p w =
     (case heap w p of
        Some i \<Rightarrow> Inr ((), emit (Ev_free p) (w\<lparr>heap := (heap w)(p := None)\<rparr>))
      | None \<Rightarrow>
          if p = NULL then Inr ((), emit (Ev_free p) w)
          else Inl (InvalidFree p, emit (Ev_free p) w))"

text \<open>
  Reading a field through a pointer. The fields of a live tracking structure are in the
  C heap; at any other address the read yields what the memory of the process holds
  there at that moment, or nothing when the address cannot be read. The program text
  of a read is the same in both cases: it tests nothing.
\<close>

definition load_linkedMem :: "environment \<Rightarrow> ptr \<Rightarrow> world \<Rightarrow> ptr option" where
  "load_linkedMem E p w =
     (case heap w p of
        Some i \<Rightarrow> Some (linkedMem i)
      | None \<Rightarrow> r_load_linkedMem E (length (trace w)) p)"

definition load_hFileMapping :: "environment \<Rightarrow> ptr \<Rightarrow> world \<Rightarrow> HANDLE option" where
  "load_hFileMapping E p w =
     (case heap w p of
        Some i \<Rightarrow> Some (hFileMapping i)
      | None \<Rightarrow> r_load_hFileMapping E (length (trace w)) p)"

definition NewDirectByteBuffer ::
  "environment \<Rightarrow> ptr \<Rightarrow> nat \<Rightarrow> world \<Rightarrow> jobject \<times> world" where
  "NewDirectByteBuffer E address capacity w =
     (let r = r_NewDirectByteBuffer E (length (trace w)) address capacity
      in (r, emit (Ev_NewDirectByteBuffer address capacity r) w))"

definition FindClass :: "environment \<Rightarrow> string \<Rightarrow> world \<Rightarrow> jclass \<times> world" where
  "FindClass E name w =
     (let r = r_FindClass E (length (trace w)) name in (r, emit (Ev_FindClass name r) w))"

definition GetMethodID ::
  "environment \<Rightarrow> jclass \<Rightarrow> string \<Rightarrow> string \<Rightarrow> world \<Rightarrow> jmethodID \<times> world" where
  "GetMethodID E cls name sig w =
     (let r = r_GetMethodID E (length (trace w)) cls name sig
      in (r, emit (Ev_GetMethodID cls name sig r) w))"

definition NewObject ::
  "environment \<Rightarrow> jclass \<Rightarrow> jmethodID \<Rightarrow> ptr \<Rightarrow> jobject \<Rightarrow> jobject \<Rightarrow> world \<Rightarrow> jobject \<times> world" where
  "NewObject E cls cid a1 a2 a3 w =
     (let r = r_NewObject E (length (trace w)) cls cid a1 a2 a3
      in (r, emit (Ev_NewObject cls cid a1 a2 a3 r) w))"

definition ThrowNew :: "environment \<Rightarrow> jclass \<Rightarrow> string \<Rightarrow> world \<Rightarrow> int \<times> world" where
  "ThrowNew E cls message w =
     (let r = r_ThrowNew E (length (trace w)) cls message
      in (r, emit (Ev_ThrowNew cls message r) w))"

section \<open>The module\<close>

definition throwIllegalStateException :: "environment \<Rightarrow> string \<Rightarrow> world \<Rightarrow> int \<times> world" where
  "throwIllegalStateException E message w =
     (let (clazz, w) = FindClass E ''java/lang/NoClassDefFoundError'' w
      in ThrowNew E clazz message w)"

text \<open>
  \<open>nOpen\<close>. The class argument is unused, and \<open>GetStringUTFChars\<close> is always called with a
  null \<open>isCopy\<close>. The store \<open>hFileMapping = NULL\<close> before the early return writes a local
  that is never read again. The two stores into the fresh tracking structure follow
  \<open>malloc\<close> with no check of its result, so a null result is a fault at the first store.
\<close>

definition Java_com_github_gw2toolbelt_gw2ml_MumbleLink_nOpen ::
  "environment \<Rightarrow> jobject \<Rightarrow> world \<Rightarrow> (fault \<times> world) + (jobject \<times> world)" where
  "Java_com_github_gw2toolbelt_gw2ml_MumbleLink_nOpen E handle w0 =
    (let (handleName, w) = GetStringUTFChars E handle w0;
         (hFileMapping, w) = OpenFileMappingA E FILE_MAP_READ False handleName w;
         (hFileMapping, w) =
           (if hFileMapping = NULL then
              (let (hFileMapping, w) =
                     CreateFileMappingA E INVALID_HANDLE_VALUE NULL PAGE_READWRITE 0
                       MUMBLE_LINK_BYTES handleName w;
                   w = ReleaseStringUTFChars E handle handleName w;
                   w = (if hFileMapping = NULL
                        then snd (throwIllegalStateException E ''Failed to create FileMapping.'' w)
                        else w)
               in (hFileMapping, w))
            else (hFileMapping, ReleaseStringUTFChars E handle handleName w));
         (linkedMem, w) = MapViewOfFile E hFileMapping FILE_MAP_READ 0 0 MUMBLE_LINK_BYTES w
     in if linkedMem = NULL then
          (let w = snd (CloseHandle E hFileMapping w)
           in Inr (NULL, w))
        else
          (let (instance, w) = malloc E w
           in if instance = NULL then Inl (InvalidDereference instance, w)
              else
               (let w = w\<lparr>heap := (heap w)(instance \<mapsto>
                            \<lparr>hFileMapping = hFileMapping, linkedMem = linkedMem\<rparr>)\<rparr>;
                    (buffer, w) = NewDirectByteBuffer E linkedMem MUMBLE_LINK_BYTES w;
                    w = (if buffer = NULL then
                           (let w = snd (UnmapViewOfFile E linkedMem w);
                                w = snd (CloseHandle E hFileMapping w)
                            in if hFileMapping = NULL
                               then snd (throwIllegalStateException E
                                           ''Failed to create new direct ByteBuffer.'' w)
                               else w)
                         else w);
                    (cls, w) = FindClass E ''com/github/gw2toolbelt/gw2ml/MumbleLink'' w;
                    w = (if cls = NULL then
                           (let w = snd (UnmapViewOfFile E linkedMem w);
                                w = snd (CloseHandle E hFileMapping w)
                            in if hFileMapping = NULL
                               then snd (throwIllegalStateException E
                                           ''Failed to find MumbleLink class.'' w)
                               else w)
                         else w);
                    (cid, w) = GetMethodID E cls ''<init>''
                                 ''(JLjava/nio/ByteBuffer;Ljava/lang/String;)V'' w;
                    w = (if cid = NULL then
                           (let w = snd (UnmapViewOfFile E linkedMem w);
                                w = snd (CloseHandle E hFileMapping w)
                            in if hFileMapping = NULL
                               then snd (throwIllegalStateException E
                                           ''Failed to find MumbleLink constructor.'' w)
                               else w)
                         else w);
                    (obj, w) = NewObject E cls cid instance buffer handle w
                in Inr (obj, w))))"

text \<open>
  \<open>nClose\<close>. Both arguments other than the address are unused. The number is cast to a
  pointer, and the three statements follow with no test of it: \<open>instance->linkedMem\<close> is
  read and unmapped, \<open>instance->hFileMapping\<close> is read and closed, and the pointer is
  freed. The run stops early only where a read itself is an access violation.
\<close>

definition Java_com_github_gw2toolbelt_gw2ml_MumbleLink_nClose ::
  "environment \<Rightarrow> jlong \<Rightarrow> world \<Rightarrow> (fault \<times> world) + (unit \<times> world)" where
  "Java_com_github_gw2toolbelt_gw2ml_MumbleLink_nClose E address w0 =
    (let instance = address
     in case load_linkedMem E instance w0 of
          None \<Rightarrow> Inl (InvalidDereference instance, w0)
        | Some view \<Rightarrow>
           (let w = snd (UnmapViewOfFile E view w0)
            in case load_hFileMapping E instance w of
                 None \<Rightarrow> Inl (InvalidDereference instance, w)
               | Some h \<Rightarrow>
                  (let w = snd (CloseHandle E h w)
                   in free instance w)))"

section \<open>Observing a call\<close>

text \<open>
  The state a call ends in, whether it returned or faulted, and the external calls it
  made: the part of the record that was added to the record it started with.
\<close>

definition final_world :: "(fault \<times> world) + ('a \<times> world) \<Rightarrow> world" where
  "final_world r = (case r of Inl (f, w) \<Rightarrow> w | Inr (x, w) \<Rightarrow> w)"

definition new_events :: "world \<Rightarrow> world \<Rightarrow> event list" where
  "new_events w w' = drop (length (trace w)) (trace w')"

text \<open>
  Resource accounting over a record of calls. A handle is acquired by an open or a
  create that returns it, a view by a mapping that returns it; they are released by the
  calls that are made to close and to unmap them. What is held is what was acquired less
  what was released, with multiplicity.
\<close>

fun acquired_handles :: "event list \<Rightarrow> HANDLE list" where
  "acquired_handles [] = []"
| "acquired_handles (Ev_OpenFileMappingA acc inh name h # es) =
     (if h = NULL then acquired_handles es else h # acquired_handles es)"
| "acquired_handles (Ev_CreateFileMappingA f a p hi lo name h # es) =
     (if h = NULL then acquired_handles es else h # acquired_handles es)"
| "acquired_handles (e # es) = acquired_handles es"

fun released_handles :: "event list \<Rightarrow> HANDLE list" where
  "released_handles [] = []"
| "released_handles (Ev_CloseHandle h b # es) = h # released_handles es"
| "released_handles (e # es) = released_handles es"

fun acquired_views :: "event list \<Rightarrow> ptr list" where
  "acquired_views [] = []"
| "acquired_views (Ev_MapViewOfFile h acc hi lo n p # es) =
     (if p = NULL then acquired_views es else p # acquired_views es)"
| "acquired_views (e # es) = acquired_views es"

fun released_views :: "event list \<Rightarrow> ptr list" where
  "released_views [] = []"
| "released_views (Ev_UnmapViewOfFile p b # es) = p # released_views es"
| "released_views (e # es) = released_views es"

definition held_handles :: "event list \<Rightarrow> HANDLE list" where
  "held_handles es = foldr remove1 (released_handles es) (acquired_handles es)"

definition held_views :: "event list \<Rightarrow> ptr list" where
  "held_views es = foldr remove1 (released_views es) (acquired_views es)"

text \<open>The Java exceptions the module raised itself: class reference and message.\<close>

fun thrown :: "event list \<Rightarrow> (jclass \<times> string) list" where
  "thrown [] = []"
| "thrown (Ev_ThrowNew c m r # es) = (c, m) # thrown es"
| "thrown (e # es) = thrown es"

fun freed :: "event list \<Rightarrow> ptr list" where
  "freed [] = []"
| "freed (Ev_free p # es) = p # freed es"
| "freed (e # es) = freed es"

fun allocated :: "event list \<Rightarrow> ptr list" where
  "allocated [] = []"
| "allocated (Ev_malloc p # es) = (if p = NULL then allocated es else p # allocated es)"
| "allocated (e # es) = allocated es"

text \<open>
  A call that reports failure to the module: a null result, a refused release, or an
  exception raised. Finding no object to open is not a failure, since the module
  goes on to create one.
\<close>

fun failed :: "event \<Rightarrow> bool" where
  "failed (Ev_GetStringUTFChars s chars) = (chars = None)"
| "failed (Ev_ReleaseStringUTFChars s chars) = False"
| "failed (Ev_OpenFileMappingA acc inh name h) = False"
| "failed (Ev_CreateFileMappingA f a p hi lo name h) = (h = NULL)"
| "failed (Ev_MapViewOfFile h acc hi lo n p) = (p = NULL)"
| "failed (Ev_UnmapViewOfFile p b) = (\<not> b)"
| "failed (Ev_CloseHandle h b) = (\<not> b)"
| "failed (Ev_malloc p) = (p = NULL)"
| "failed (Ev_free p) = False"
| "failed (Ev_NewDirectByteBuffer a n b) = (b = NULL)"
| "failed (Ev_FindClass name c) = (c = NULL)"
| "failed (Ev_GetMethodID c name sig m) = (m = NULL)"
| "failed (Ev_NewObject c m a1 a2 a3 obj) = (obj = NULL)"
| "failed (Ev_ThrowNew c m r) = True"

text \<open>
  Every exception is raised with the class reference that the call just before it
  looked up under the name \<open>n\<close>.
\<close>

fun lookup_precedes_throw :: "string \<Rightarrow> event option \<Rightarrow> event list \<Rightarrow> bool" where
  "lookup_precedes_throw n prev [] = True"
| "lookup_precedes_throw n prev (Ev_ThrowNew c m r # es) =
     (prev = Some (Ev_FindClass n c) \<and> lookup_precedes_throw n (Some (Ev_ThrowNew c m r)) es)"
| "lookup_precedes_throw n prev (e # es) = lookup_precedes_throw n (Some e) es"

definition throws_only :: "string \<Rightarrow> event list \<Rightarrow> bool" where
  "throws_only n es = lookup_precedes_throw n None es"


abbreviation nOpen :: "environment \<Rightarrow> jobject \<Rightarrow> world \<Rightarrow> (fault \<times> world) + (jobject \<times> world)" where
  "nOpen \<equiv> Java_com_github_gw2toolbelt_gw2ml_MumbleLink_nOpen"

abbreviation nClose :: "environment \<Rightarrow> jlong \<Rightarrow> world \<Rightarrow> (fault \<times> world) + (unit \<times> world)" where
  "nClose \<equiv> Java_com_github_gw2toolbelt_gw2ml_MumbleLink_nClose"

section \<open>Concrete systems\<close>

text \<open>
  A system on which no object of the name exists yet and every call succeeds; mapping
  a null handle and closing a null handle fail, as they do on Windows. No memory
  outside the live tracking structures can be read.
\<close>

definition env_fresh :: environment where
  "env_fresh =
     \<lparr>r_GetStringUTFChars = (\<lambda>t s. Some ''MumbleLink''),
      r_OpenFileMappingA = (\<lambda>t acc inh name. NULL),
      r_CreateFileMappingA = (\<lambda>t f a p hi lo name. 40),
      r_MapViewOfFile = (\<lambda>t h acc hi lo n. if h = NULL then NULL else 4096),
      r_UnmapViewOfFile = (\<lambda>t p. True),
      r_CloseHandle = (\<lambda>t h. h \<noteq> NULL),
      r_malloc = (\<lambda>t. 512),
      r_NewDirectByteBuffer = (\<lambda>t a n. 71),
      r_FindClass = (\<lambda>t name. if name = ''java/lang/NoClassDefFoundError'' then 90 else 91),
      r_GetMethodID = (\<lambda>t c name sig. 92),
      r_NewObject = (\<lambda>t c m a1 a2 a3. 99),
      r_ThrowNew = (\<lambda>t c m. 0),
      r_load_linkedMem = (\<lambda>t p. None),
      r_load_hFileMapping = (\<lambda>t p. None)\<rparr>"

text \<open>The same system when a publisher has already created the object.\<close>

definition env_attach :: environment where
  "env_attach = env_fresh\<lparr>r_OpenFileMappingA := (\<lambda>t acc inh name. 40)\<rparr>"

definition world0 :: world where
  "world0 = \<lparr>heap = Map.empty, trace = []\<rparr>"

text \<open>A process that holds one session, at address 512.\<close>

definition world1 :: world where
  "world1 = \<lparr>heap = [512 \<mapsto> \<lparr>hFileMapping = 40, linkedMem = 4096\<rparr>], trace = []\<rparr>"

text \<open>Systems on which one step fails.\<close>

definition env_no_create :: environment where
  "env_no_create = env_fresh\<lparr>r_CreateFileMappingA := (\<lambda>t f a p hi lo name. NULL)\<rparr>"

definition env_no_map :: environment where
  "env_no_map = env_attach\<lparr>r_MapViewOfFile := (\<lambda>t h acc hi lo n. NULL)\<rparr>"

definition env_no_buffer :: environment where
  "env_no_buffer = env_fresh\<lparr>r_NewDirectByteBuffer := (\<lambda>t a n. NULL)\<rparr>"

definition env_no_buffer_no_class :: environment where
  "env_no_buffer_no_class = env_no_buffer\<lparr>r_FindClass :=
     (\<lambda>t name. if name = ''java/lang/NoClassDefFoundError'' then 90 else NULL)\<rparr>"

definition env_no_object :: environment where
  "env_no_object = env_fresh\<lparr>r_NewObject := (\<lambda>t c m a1 a2 a3. NULL)\<rparr>"

definition env_release_fails :: environment where
  "env_release_fails = env_fresh\<lparr>r_UnmapViewOfFile := (\<lambda>t p. False),
     r_CloseHandle := (\<lambda>t h. False)\<rparr>"

text \<open>
  A system whose memory can be read at two addresses that hold no live tracking
  structure: at 512 the bytes that a freed structure left behind, at 8192 bytes that
  never were a structure. The null address cannot be read.
\<close>

definition env_stale :: environment where
  "env_stale = env_fresh\<lparr>
     r_load_linkedMem := (\<lambda>t p. if p = 512 then Some 4096 else if p = 8192 then Some 7 else None),
     r_load_hFileMapping := (\<lambda>t p. if p = 512 then Some 40 else if p = 8192 then Some 9 else None)\<rparr>"

text \<open>A system that differs from it only in that the null address can be read.\<close>

definition env_null_readable :: environment where
  "env_null_readable = env_fresh\<lparr>
     r_load_linkedMem := (\<lambda>t p. if p = NULL then Some 7 else None),
     r_load_hFileMapping := (\<lambda>t p. if p = NULL then Some 9 else None)\<rparr>"

section \<open>Running the module symbolically\<close>

text \<open>
  Each external call appends one entry to the record and leaves the C heap alone. The
  rules below run the module one call at a time; a conditional on a value the system
  returned is pushed outwards, so that a proof can follow one path at a time.
\<close>

lemma trace_emit: "trace (emit e w) = trace w @ [e]"
  by (simp add: emit_def)

lemma heap_emit: "heap (emit e w) = heap w"
  by (simp add: emit_def)

lemmas call_simps =
  GetStringUTFChars_def [unfolded Let_def] ReleaseStringUTFChars_def
  OpenFileMappingA_def [unfolded Let_def] CreateFileMappingA_def [unfolded Let_def]
  MapViewOfFile_def [unfolded Let_def] UnmapViewOfFile_def [unfolded Let_def]
  CloseHandle_def [unfolded Let_def] malloc_def [unfolded Let_def]
  NewDirectByteBuffer_def [unfolded Let_def] FindClass_def [unfolded Let_def]
  GetMethodID_def [unfolded Let_def] NewObject_def [unfolded Let_def]
  ThrowNew_def [unfolded Let_def]

lemma throw_simp:
  "snd (throwIllegalStateException E message w) =
     emit (Ev_ThrowNew (r_FindClass E (length (trace w)) ''java/lang/NoClassDefFoundError'') message
             (r_ThrowNew E (Suc (length (trace w)))
                (r_FindClass E (length (trace w)) ''java/lang/NoClassDefFoundError'') message))
       (emit (Ev_FindClass ''java/lang/NoClassDefFoundError''
                (r_FindClass E (length (trace w)) ''java/lang/NoClassDefFoundError'')) w)"
  by (simp add: throwIllegalStateException_def call_simps Let_def trace_emit)

lemma Let_if_lift: "Let (if c then a else b) f = (if c then Let a f else Let b f)"
  by simp

lemma Let_pair: "Let (a, b) f = f (a, b)"
  by simp

lemma Let_emit: "Let (emit e w) f = f (emit e w)"
  by simp

lemma Let_heap_update: "Let (w\<lparr>heap := h\<rparr>) f = f (w\<lparr>heap := h\<rparr>)"
  by simp

lemmas exec =
  Java_com_github_gw2toolbelt_gw2ml_MumbleLink_nOpen_def call_simps throw_simp
  Let_if_lift Let_pair Let_emit Let_heap_update trace_emit heap_emit MUMBLE_LINK_BYTES_def

lemmas env_defs = env_fresh_def env_attach_def env_no_create_def env_no_map_def env_no_buffer_def
  env_no_buffer_no_class_def env_no_object_def env_release_fails_def env_stale_def
  env_null_readable_def

lemmas close_defs = Java_com_github_gw2toolbelt_gw2ml_MumbleLink_nClose_def call_simps free_def
  load_linkedMem_def load_hFileMapping_def Let_def

lemma new_events_world0: "new_events world0 w = trace w"
  by (simp add: new_events_def world0_def)

lemma final_world_Inr: "final_world (Inr (x, w)) = w"
  by (simp add: final_world_def)


lemma new_events_world1: "new_events world1 w = trace w"
  by (simp add: new_events_def world1_def)

lemma heap_world1: "heap world1 = [512 \<mapsto> \<lparr>hFileMapping = 40, linkedMem = 4096\<rparr>]"
  by (simp add: world1_def)

text \<open>
  What holds of every run of \<open>nOpen\<close>, whatever the system answers and wherever the run
  ends: it frees nothing, every tracking structure it allocated is still allocated, it
  never places one at the null address, and it raises only through the helper.
\<close>

lemma nOpen_invariants:
  "freed (new_events w (final_world (nOpen E handle w))) = []
   \<and> (\<forall>p \<in> set (allocated (new_events w (final_world (nOpen E handle w)))).
         heap (final_world (nOpen E handle w)) p \<noteq> None)
   \<and> (\<forall>p. heap w p \<noteq> None \<longrightarrow> heap (final_world (nOpen E handle w)) p \<noteq> None)
   \<and> (heap w NULL = None \<longrightarrow> heap (final_world (nOpen E handle w)) NULL = None)
   \<and> throws_only ''java/lang/NoClassDefFoundError''
         (new_events w (final_world (nOpen E handle w)))"
proof -
  define Q where "Q r \<longleftrightarrow> freed (new_events w (final_world r)) = []
       \<and> (\<forall>p \<in> set (allocated (new_events w (final_world r))). heap (final_world r) p \<noteq> None)
       \<and> (\<forall>p. heap w p \<noteq> None \<longrightarrow> heap (final_world r) p \<noteq> None)
       \<and> (heap w NULL = None \<longrightarrow> heap (final_world r) NULL = None)
       \<and> throws_only ''java/lang/NoClassDefFoundError'' (new_events w (final_world r))"
    for r :: "(fault \<times> world) + (jobject \<times> world)"
  have "Q (nOpen E handle w)"
    by ((simp add: exec split del: if_split
          | (split if_split, intro conjI impI)
          | simp add: Q_def throws_only_def new_events_def final_world_def trace_emit heap_emit)+)
  then show ?thesis by (simp add: Q_def)
qed

subsection \<open>Runs on the concrete systems\<close>

lemma run_fresh:
  "nOpen env_fresh 5 world0 =
     Inr (99, \<lparr>heap = [512 \<mapsto> \<lparr>hFileMapping = 40, linkedMem = 4096\<rparr>],
               trace = [Ev_GetStringUTFChars 5 (Some ''MumbleLink''),
                 Ev_OpenFileMappingA FILE_MAP_READ False (Some ''MumbleLink'') NULL,
                 Ev_CreateFileMappingA INVALID_HANDLE_VALUE NULL PAGE_READWRITE 0 5460
                   (Some ''MumbleLink'') 40,
                 Ev_ReleaseStringUTFChars 5 (Some ''MumbleLink''),
                 Ev_MapViewOfFile 40 FILE_MAP_READ 0 0 5460 4096,
                 Ev_malloc 512,
                 Ev_NewDirectByteBuffer 4096 5460 71,
                 Ev_FindClass ''com/github/gw2toolbelt/gw2ml/MumbleLink'' 91,
                 Ev_GetMethodID 91 ''<init>'' ''(JLjava/nio/ByteBuffer;Ljava/lang/String;)V'' 92,
                 Ev_NewObject 91 92 512 71 5 99]\<rparr>)"
  by (simp add: exec env_defs world0_def emit_def)

lemma run_no_create:
  "nOpen env_no_create 5 world0 =
     Inr (NULL, \<lparr>heap = Map.empty,
               trace = [Ev_GetStringUTFChars 5 (Some ''MumbleLink''),
                 Ev_OpenFileMappingA FILE_MAP_READ False (Some ''MumbleLink'') NULL,
                 Ev_CreateFileMappingA INVALID_HANDLE_VALUE NULL PAGE_READWRITE 0 5460
                   (Some ''MumbleLink'') NULL,
                 Ev_ReleaseStringUTFChars 5 (Some ''MumbleLink''),
                 Ev_FindClass ''java/lang/NoClassDefFoundError'' 90,
                 Ev_ThrowNew 90 ''Failed to create FileMapping.'' 0,
                 Ev_MapViewOfFile NULL FILE_MAP_READ 0 0 5460 NULL,
                 Ev_CloseHandle NULL False]\<rparr>)"
  by (simp add: exec env_defs world0_def emit_def)

lemma run_no_map:
  "nOpen env_no_map 5 world0 =
     Inr (NULL, \<lparr>heap = Map.empty,
               trace = [Ev_GetStringUTFChars 5 (Some ''MumbleLink''),
                 Ev_OpenFileMappingA FILE_MAP_READ False (Some ''MumbleLink'') 40,
                 Ev_ReleaseStringUTFChars 5 (Some ''MumbleLink''),
                 Ev_MapViewOfFile 40 FILE_MAP_READ 0 0 5460 NULL,
                 Ev_CloseHandle 40 True]\<rparr>)"
  by (simp add: exec env_defs world0_def emit_def)

lemma run_no_buffer:
  "nOpen env_no_buffer 5 world0 =
     Inr (99, \<lparr>heap = [512 \<mapsto> \<lparr>hFileMapping = 40, linkedMem = 4096\<rparr>],
               trace = [Ev_GetStringUTFChars 5 (Some ''MumbleLink''),
                 Ev_OpenFileMappingA FILE_MAP_READ False (Some ''MumbleLink'') NULL,
                 Ev_CreateFileMappingA INVALID_HANDLE_VALUE NULL PAGE_READWRITE 0 5460
                   (Some ''MumbleLink'') 40,
                 Ev_ReleaseStringUTFChars 5 (Some ''MumbleLink''),
                 Ev_MapViewOfFile 40 FILE_MAP_READ 0 0 5460 4096,
                 Ev_malloc 512,
                 Ev_NewDirectByteBuffer 4096 5460 NULL,
                 Ev_UnmapViewOfFile 4096 True,
                 Ev_CloseHandle 40 True,
                 Ev_FindClass ''com/github/gw2toolbelt/gw2ml/MumbleLink'' 91,
                 Ev_GetMethodID 91 ''<init>'' ''(JLjava/nio/ByteBuffer;Ljava/lang/String;)V'' 92,
                 Ev_NewObject 91 92 512 NULL 5 99]\<rparr>)"
  by (simp add: exec env_defs world0_def emit_def)

lemma run_no_buffer_no_class:
  "nOpen env_no_buffer_no_class 5 world0 =
     Inr (99, \<lparr>heap = [512 \<mapsto> \<lparr>hFileMapping = 40, linkedMem = 4096\<rparr>],
               trace = [Ev_GetStringUTFChars 5 (Some ''MumbleLink''),
                 Ev_OpenFileMappingA FILE_MAP_READ False (Some ''MumbleLink'') NULL,
                 Ev_CreateFileMappingA INVALID_HANDLE_VALUE NULL PAGE_READWRITE 0 5460
                   (Some ''MumbleLink'') 40,
                 Ev_ReleaseStringUTFChars 5 (Some ''MumbleLink''),
                 Ev_MapViewOfFile 40 FILE_MAP_READ 0 0 5460 4096,
                 Ev_malloc 512,
                 Ev_NewDirectByteBuffer 4096 5460 NULL,
                 Ev_UnmapViewOfFile 4096 True,
                 Ev_CloseHandle 40 True,
                 Ev_FindClass ''com/github/gw2toolbelt/gw2ml/MumbleLink'' NULL,
                 Ev_UnmapViewOfFile 4096 True,
                 Ev_CloseHandle 40 True,
                 Ev_GetMethodID NULL ''<init>'' ''(JLjava/nio/ByteBuffer;Ljava/lang/String;)V'' 92,
                 Ev_NewObject NULL 92 512 NULL 5 99]\<rparr>)"
  by (simp add: exec env_defs world0_def emit_def)

lemma run_no_object:
  "nOpen env_no_object 5 world0 =
     Inr (NULL, \<lparr>heap = [512 \<mapsto> \<lparr>hFileMapping = 40, linkedMem = 4096\<rparr>],
               trace = [Ev_GetStringUTFChars 5 (Some ''MumbleLink''),
                 Ev_OpenFileMappingA FILE_MAP_READ False (Some ''MumbleLink'') NULL,
                 Ev_CreateFileMappingA INVALID_HANDLE_VALUE NULL PAGE_READWRITE 0 5460
                   (Some ''MumbleLink'') 40,
                 Ev_ReleaseStringUTFChars 5 (Some ''MumbleLink''),
                 Ev_MapViewOfFile 40 FILE_MAP_READ 0 0 5460 4096,
                 Ev_malloc 512,
                 Ev_NewDirectByteBuffer 4096 5460 71,
                 Ev_FindClass ''com/github/gw2toolbelt/gw2ml/MumbleLink'' 91,
                 Ev_GetMethodID 91 ''<init>'' ''(JLjava/nio/ByteBuffer;Ljava/lang/String;)V'' 92,
                 Ev_NewObject 91 92 512 71 5 NULL]\<rparr>)"
  by (simp add: exec env_defs world0_def emit_def)

lemma close_world1:
  "nClose E 512 world1 =
     Inr ((), \<lparr>heap = Map.empty,
               trace = [Ev_UnmapViewOfFile 4096 (r_UnmapViewOfFile E 0 4096),
                        Ev_CloseHandle 40 (r_CloseHandle E 1 40),
                        Ev_free 512]\<rparr>)"
  by (simp add: close_defs emit_def world1_def)

section \<open>Opening\<close>

text \<open>
  Claim C1. When mapping succeeds and building the wrapper fails at a sub-step, \<open>nOpen\<close>
  is to release the view, then the handle, raise an exception and return no wrapper.
  On a system where only the creation of the direct byte buffer fails, the view and
  the handle are released in that order, but nothing is raised and the call goes on:
  it looks up the class and the constructor and returns the wrapper \<open>99\<close>, built with
  a null buffer over a view that is already unmapped. The guard of the raise,
  \<open>hFileMapping == NULL\<close>, is false here, and no \<open>return\<close> follows the release.
\<close>

theorem nOpen_wrapper_failure_not_signalled:
  "\<exists>w'. nOpen env_no_buffer 5 world0 = Inr (99, w')
      \<and> released_views (trace w') = [4096] \<and> released_handles (trace w') = [40]
      \<and> thrown (trace w') = []
      \<and> last (trace w') = Ev_NewObject 91 92 512 NULL 5 99"
  by (simp add: run_no_buffer)

text \<open>
  Claim C2. A successful return is to hold one handle and one view, and a failed one
  nothing, each partial acquisition having been released exactly once. Two runs show
  what the code does instead. When the construction of the wrapper object itself fails,
  \<open>nOpen\<close> returns null and has released nothing: the handle \<open>40\<close> and the view \<open>4096\<close>
  stay held. When the buffer and the class lookup both fail, the view and the handle
  are each released twice, and a wrapper is returned all the same.
\<close>

theorem nOpen_failure_paths_unbalanced:
  "(\<exists>w'. nOpen env_no_object 5 world0 = Inr (NULL, w')
      \<and> held_handles (trace w') = [40] \<and> held_views (trace w') = [4096]
      \<and> released_handles (trace w') = [] \<and> released_views (trace w') = [])
   \<and> (\<exists>w'. nOpen env_no_buffer_no_class 5 world0 = Inr (99, w')
      \<and> acquired_handles (trace w') = [40] \<and> released_handles (trace w') = [40, 40]
      \<and> acquired_views (trace w') = [4096] \<and> released_views (trace w') = [4096, 4096])"
  by (simp add: run_no_object run_no_buffer_no_class held_handles_def held_views_def)

text \<open>
  Claim C3. When a handle was obtained and mapping fails, \<open>nOpen\<close> is to release the
  handle and raise an exception. On a system where the object exists and mapping
  fails, the handle \<open>40\<close> is released once and null is returned, but no exception is
  raised: the branch has no call of the helper.
\<close>

theorem nOpen_mapping_failure_raises_nothing:
  "\<exists>w'. nOpen env_no_map 5 world0 = Inr (NULL, w')
      \<and> acquired_handles (trace w') = [40] \<and> released_handles (trace w') = [40]
      \<and> thrown (trace w') = []"
  by (simp add: run_no_map)



text \<open>
  Claim C7. When \<open>nOpen\<close> returns and no call of the run failed, the run made exactly the
  calls listed, in that order, after either opening or creating the object: a view of
  5460 bytes is mapped at \<open>v\<close>, the byte buffer \<open>buf\<close> is made by \<open>NewDirectByteBuffer\<close>
  from the address \<open>v\<close> and the capacity 5460, and \<open>buf\<close> is what the constructor of the
  returned wrapper receives. No other call is made, so nothing unmaps the view and
  nothing copies it.
\<close>

theorem nOpen_hands_back_direct_view:
  assumes run: "nOpen E handle w = Inr (obj, w')"
      and ok: "\<not> list_ex failed (new_events w w')"
  shows "\<exists>name h v inst buf cls cid.
           (new_events w w' =
              [Ev_GetStringUTFChars handle name,
               Ev_OpenFileMappingA FILE_MAP_READ False name h,
               Ev_ReleaseStringUTFChars handle name,
               Ev_MapViewOfFile h FILE_MAP_READ 0 0 5460 v,
               Ev_malloc inst,
               Ev_NewDirectByteBuffer v 5460 buf,
               Ev_FindClass ''com/github/gw2toolbelt/gw2ml/MumbleLink'' cls,
               Ev_GetMethodID cls ''<init>'' ''(JLjava/nio/ByteBuffer;Ljava/lang/String;)V'' cid,
               Ev_NewObject cls cid inst buf handle obj]
            \<or> new_events w w' =
              [Ev_GetStringUTFChars handle name,
               Ev_OpenFileMappingA FILE_MAP_READ False name NULL,
               Ev_CreateFileMappingA INVALID_HANDLE_VALUE NULL PAGE_READWRITE 0 5460 name h,
               Ev_ReleaseStringUTFChars handle name,
               Ev_MapViewOfFile h FILE_MAP_READ 0 0 5460 v,
               Ev_malloc inst,
               Ev_NewDirectByteBuffer v 5460 buf,
               Ev_FindClass ''com/github/gw2toolbelt/gw2ml/MumbleLink'' cls,
               Ev_GetMethodID cls ''<init>'' ''(JLjava/nio/ByteBuffer;Ljava/lang/String;)V'' cid,
               Ev_NewObject cls cid inst buf handle obj])
         \<and> h \<noteq> NULL \<and> v \<noteq> NULL \<and> buf \<noteq> NULL \<and> obj \<noteq> NULL
         \<and> heap w' inst = Some \<lparr>hFileMapping = h, linkedMem = v\<rparr>"
proof -
  define Q where "Q r \<longleftrightarrow> (\<forall>obj w'. r = Inr (obj, w') \<and> \<not> list_ex failed (new_events w w') \<longrightarrow>
    (\<exists>name h v inst buf cls cid.
           (new_events w w' =
              [Ev_GetStringUTFChars handle name,
               Ev_OpenFileMappingA FILE_MAP_READ False name h,
               Ev_ReleaseStringUTFChars handle name,
               Ev_MapViewOfFile h FILE_MAP_READ 0 0 5460 v,
               Ev_malloc inst,
               Ev_NewDirectByteBuffer v 5460 buf,
               Ev_FindClass ''com/github/gw2toolbelt/gw2ml/MumbleLink'' cls,
               Ev_GetMethodID cls ''<init>'' ''(JLjava/nio/ByteBuffer;Ljava/lang/String;)V'' cid,
               Ev_NewObject cls cid inst buf handle obj]
            \<or> new_events w w' =
              [Ev_GetStringUTFChars handle name,
               Ev_OpenFileMappingA FILE_MAP_READ False name NULL,
               Ev_CreateFileMappingA INVALID_HANDLE_VALUE NULL PAGE_READWRITE 0 5460 name h,
               Ev_ReleaseStringUTFChars handle name,
               Ev_MapViewOfFile h FILE_MAP_READ 0 0 5460 v,
               Ev_malloc inst,
               Ev_NewDirectByteBuffer v 5460 buf,
               Ev_FindClass ''com/github/gw2toolbelt/gw2ml/MumbleLink'' cls,
               Ev_GetMethodID cls ''<init>'' ''(JLjava/nio/ByteBuffer;Ljava/lang/String;)V'' cid,
               Ev_NewObject cls cid inst buf handle obj])
         \<and> h \<noteq> NULL \<and> v \<noteq> NULL \<and> buf \<noteq> NULL \<and> obj \<noteq> NULL
         \<and> heap w' inst = Some \<lparr>hFileMapping = h, linkedMem = v\<rparr>))"
    for r :: "(fault \<times> world) + (jobject \<times> world)"
  have "Q (nOpen E handle w)"
    by ((simp add: exec split del: if_split
          | (split if_split, intro conjI impI)
          | simp add: Q_def new_events_def final_world_def trace_emit heap_emit)+)
  with assms show ?thesis unfolding Q_def by blast
qed

theorem nOpen_hands_back_direct_view_witness:
  "\<exists>w'. nOpen env_fresh 5 world0 = Inr (99, w')
     \<and> \<not> list_ex failed (new_events world0 w')
     \<and> Ev_MapViewOfFile 40 FILE_MAP_READ 0 0 5460 4096 \<in> set (new_events world0 w')
     \<and> Ev_NewDirectByteBuffer 4096 5460 71 \<in> set (new_events world0 w')
     \<and> last (new_events world0 w') = Ev_NewObject 91 92 512 71 5 99
     \<and> heap w' 512 = Some \<lparr>hFileMapping = 40, linkedMem = 4096\<rparr>"
proof -
  have ok: "\<not> list_ex failed (new_events world0
      \<lparr>heap = [512 \<mapsto> \<lparr>hFileMapping = 40, linkedMem = 4096\<rparr>],
       trace = [Ev_GetStringUTFChars 5 (Some ''MumbleLink''),
                 Ev_OpenFileMappingA FILE_MAP_READ False (Some ''MumbleLink'') NULL,
                 Ev_CreateFileMappingA INVALID_HANDLE_VALUE NULL PAGE_READWRITE 0 5460
                   (Some ''MumbleLink'') 40,
                 Ev_ReleaseStringUTFChars 5 (Some ''MumbleLink''),
                 Ev_MapViewOfFile 40 FILE_MAP_READ 0 0 5460 4096,
                 Ev_malloc 512,
                 Ev_NewDirectByteBuffer 4096 5460 71,
                 Ev_FindClass ''com/github/gw2toolbelt/gw2ml/MumbleLink'' 91,
                 Ev_GetMethodID 91 ''<init>'' ''(JLjava/nio/ByteBuffer;Ljava/lang/String;)V'' 92,
                 Ev_NewObject 91 92 512 71 5 99]\<rparr>)"
    by (simp add: new_events_world0)
  show ?thesis
    using ok nOpen_hands_back_direct_view [OF run_fresh ok]
    by (simp add: run_fresh new_events_world0)
qed

text \<open>
  Claim C8. The helper looks up the class named \<open>java/lang/NoClassDefFoundError\<close> and
  raises an exception of the class reference it got, whatever the message. In every run
  of \<open>nOpen\<close>, on every system, each exception the module raises is raised with the
  class reference that the call just before it looked up under that one name.
\<close>

theorem nOpen_throws_one_class:
  "new_events w (snd (throwIllegalStateException E message w)) =
     [Ev_FindClass ''java/lang/NoClassDefFoundError''
        (r_FindClass E (length (trace w)) ''java/lang/NoClassDefFoundError''),
      Ev_ThrowNew (r_FindClass E (length (trace w)) ''java/lang/NoClassDefFoundError'') message
        (fst (throwIllegalStateException E message w))]
   \<and> throws_only ''java/lang/NoClassDefFoundError''
        (new_events w (final_world (nOpen E handle w)))"
  using nOpen_invariants [of w E handle]
  by (simp add: throwIllegalStateException_def call_simps Let_def trace_emit new_events_def)

theorem nOpen_throws_one_class_witness:
  "throws_only ''java/lang/NoClassDefFoundError''
     (new_events world0 (final_world (nOpen env_no_create 5 world0)))
   \<and> thrown (new_events world0 (final_world (nOpen env_no_create 5 world0)))
       = [(90, ''Failed to create FileMapping.'')]
   \<and> Ev_FindClass ''java/lang/NoClassDefFoundError'' 90
       \<in> set (new_events world0 (final_world (nOpen env_no_create 5 world0)))"
  using nOpen_throws_one_class [where w = world0 and E = env_no_create and handle = 5]
  by (simp add: run_no_create new_events_world0 final_world_Inr)

text \<open>
  Claim C9. No run of \<open>nOpen\<close> calls \<open>free\<close>, and every tracking structure that a run
  allocated is still allocated when the run ends, whether it ends in success or after
  any failure of the wrapper construction; structures that were allocated before stay
  allocated too. \<open>nClose\<close> on a live structure frees exactly that structure.
\<close>

theorem nOpen_never_frees:
  assumes "final_world (nOpen E handle w) = w'"
  shows "freed (new_events w w') = []
       \<and> (\<forall>p \<in> set (allocated (new_events w w')). heap w' p \<noteq> None)
       \<and> (\<forall>p. heap w p \<noteq> None \<longrightarrow> heap w' p \<noteq> None)
       \<and> (\<forall>a inst. heap w a = Some inst \<longrightarrow>
             freed (new_events w (final_world (nClose E' a w))) = [a]
           \<and> heap (final_world (nClose E' a w)) a = None)"
  using assms nOpen_invariants [of w E handle]
  by (auto simp add: close_defs trace_emit heap_emit new_events_def final_world_def)

theorem nOpen_never_frees_witness:
  "freed (new_events world0 (final_world (nOpen env_no_buffer_no_class 5 world0))) = []
   \<and> allocated (new_events world0 (final_world (nOpen env_no_buffer_no_class 5 world0))) = [512]
   \<and> heap (final_world (nOpen env_no_buffer_no_class 5 world0)) 512
       = Some \<lparr>hFileMapping = 40, linkedMem = 4096\<rparr>
   \<and> heap world1 512 = Some \<lparr>hFileMapping = 40, linkedMem = 4096\<rparr>
   \<and> freed (new_events world1 (final_world (nClose env_fresh 512 world1))) = [512]"
  using nOpen_never_frees [where E = env_no_buffer_no_class and handle = 5 and w = world0
      and E' = env_fresh, OF refl]
  by (simp add: run_no_buffer_no_class new_events_world0 final_world_Inr close_world1
        new_events_world1 heap_world1)

section \<open>Closing\<close>

text \<open>
  Claim C5. On a live session \<open>nClose\<close> makes exactly three calls, in this order: it
  unmaps the view of the session, closes the handle of the session, and frees the
  tracking structure. It returns, and the structure is gone from the C heap.
\<close>

theorem nClose_order:
  assumes "heap w address = Some inst"
  shows "\<exists>b1 b2 w'. nClose E address w = Inr ((), w')
           \<and> new_events w w' = [Ev_UnmapViewOfFile (linkedMem inst) b1,
                Ev_CloseHandle (hFileMapping inst) b2, Ev_free address]
           \<and> heap w' = (heap w)(address := None)"
  using assms
  by (simp add: close_defs emit_def new_events_def)

theorem nClose_order_witness:
  "heap world1 512 = Some \<lparr>hFileMapping = 40, linkedMem = 4096\<rparr>
   \<and> (\<exists>b1 b2 w'. nClose env_fresh 512 world1 = Inr ((), w')
           \<and> new_events world1 w' = [Ev_UnmapViewOfFile 4096 b1, Ev_CloseHandle 40 b2, Ev_free 512]
           \<and> heap w' = (heap world1)(512 := None))"
proof -
  have live: "heap world1 512 = Some \<lparr>hFileMapping = 40, linkedMem = 4096\<rparr>"
    by (simp add: world1_def)
  show ?thesis
    using live nClose_order [OF live, where E = env_fresh] by simp
qed

text \<open>
  Claim C6. Whatever the unmapping and the closing of the handle answer, success or
  failure, \<open>nClose\<close> on a live session makes all three calls, raises no exception and
  returns normally.
\<close>

theorem nClose_swallows_failures:
  assumes "heap w address = Some inst"
      and "r_UnmapViewOfFile E (length (trace w)) (linkedMem inst) = b1"
      and "r_CloseHandle E (Suc (length (trace w))) (hFileMapping inst) = b2"
  shows "\<exists>w'. nClose E address w = Inr ((), w')
           \<and> new_events w w' = [Ev_UnmapViewOfFile (linkedMem inst) b1,
                Ev_CloseHandle (hFileMapping inst) b2, Ev_free address]
           \<and> thrown (new_events w w') = []"
  using assms
  by (simp add: close_defs emit_def new_events_def)

theorem nClose_swallows_failures_witness:
  "heap world1 512 = Some \<lparr>hFileMapping = 40, linkedMem = 4096\<rparr>
   \<and> r_UnmapViewOfFile env_release_fails (length (trace world1)) 4096 = False
   \<and> r_CloseHandle env_release_fails (Suc (length (trace world1))) 40 = False
   \<and> (\<exists>w'. nClose env_release_fails 512 world1 = Inr ((), w')
           \<and> new_events world1 w' = [Ev_UnmapViewOfFile 4096 False, Ev_CloseHandle 40 False,
                Ev_free 512]
           \<and> thrown (new_events world1 w') = [])"
proof -
  have live: "heap world1 512 = Some \<lparr>hFileMapping = 40, linkedMem = 4096\<rparr>"
    by (simp add: world1_def)
  have unmap: "r_UnmapViewOfFile env_release_fails (length (trace world1))
      (linkedMem \<lparr>hFileMapping = 40, linkedMem = 4096\<rparr>) = False"
    by (simp add: env_defs)
  have close: "r_CloseHandle env_release_fails (Suc (length (trace world1)))
      (hFileMapping \<lparr>hFileMapping = 40, linkedMem = 4096\<rparr>) = False"
    by (simp add: env_defs)
  show ?thesis
    using live unmap close nClose_swallows_failures [OF live unmap close] by simp
qed

text \<open>
  Claim C10. \<open>nClose\<close> reads through the reference it is given and acts on what it
  read, for every reference and with no test of it. Whatever the reference is, null or
  not, a live session or not: if the two reads yield values, the run unmaps the first
  value, closes the second and frees the reference. The run makes no call only when the
  first read itself is an access violation. It never raises an exception, and it never
  returns without having made all three calls, so an invalid reference is neither
  signalled nor ignored.
\<close>

theorem nClose_unguarded:
  "(\<forall>view h. load_linkedMem E address w = Some view
        \<and> load_hFileMapping E address (snd (UnmapViewOfFile E view w)) = Some h \<longrightarrow>
        (\<exists>b1 b2. new_events w (final_world (nClose E address w)) =
           [Ev_UnmapViewOfFile view b1, Ev_CloseHandle h b2, Ev_free address]))
   \<and> (new_events w (final_world (nClose E address w)) = []
        \<longleftrightarrow> load_linkedMem E address w = None)
   \<and> (load_linkedMem E address w = None
        \<longrightarrow> nClose E address w = Inl (InvalidDereference address, w))
   \<and> thrown (new_events w (final_world (nClose E address w))) = []
   \<and> (\<forall>w'. nClose E address w = Inr ((), w') \<longrightarrow>
        (\<exists>view b1 h b2. new_events w w' =
           [Ev_UnmapViewOfFile view b1, Ev_CloseHandle h b2, Ev_free address]))"
  by (auto simp add: Java_com_github_gw2toolbelt_gw2ml_MumbleLink_nClose_def call_simps free_def
        Let_def trace_emit heap_emit new_events_def final_world_def
        split: option.splits if_splits)

theorem nClose_unguarded_witness:
  "load_linkedMem env_stale 8192 world0 = Some 7
   \<and> load_hFileMapping env_stale 8192 (snd (UnmapViewOfFile env_stale 7 world0)) = Some 9
   \<and> new_events world0 (final_world (nClose env_stale 8192 world0)) =
       [Ev_UnmapViewOfFile 7 True, Ev_CloseHandle 9 True, Ev_free 8192]
   \<and> load_linkedMem env_null_readable NULL world0 = Some 7
   \<and> load_hFileMapping env_null_readable NULL (snd (UnmapViewOfFile env_null_readable 7 world0))
       = Some 9
   \<and> new_events world0 (final_world (nClose env_null_readable NULL world0)) =
       [Ev_UnmapViewOfFile 7 True, Ev_CloseHandle 9 True, Ev_free NULL]
   \<and> load_linkedMem env_stale NULL world0 = None
   \<and> nClose env_stale NULL world0 = Inl (InvalidDereference NULL, world0)
   \<and> (\<exists>w'. nClose env_stale 512 world1 = Inr ((), w')
        \<and> new_events world1 w' = [Ev_UnmapViewOfFile 4096 True, Ev_CloseHandle 40 True, Ev_free 512]
        \<and> heap w' 512 = None
        \<and> new_events w' (final_world (nClose env_stale 512 w')) =
            [Ev_UnmapViewOfFile 4096 True, Ev_CloseHandle 40 True, Ev_free 512])"
proof -
  have raw1: "load_linkedMem env_stale 8192 world0 = Some 7"
    by (simp add: load_linkedMem_def env_defs world0_def)
  have raw2: "load_hFileMapping env_stale 8192 (snd (UnmapViewOfFile env_stale 7 world0)) = Some 9"
    by (simp add: load_hFileMapping_def call_simps heap_emit env_defs world0_def)
  have raw_run: "nClose env_stale 8192 world0 =
     Inl (InvalidFree 8192, \<lparr>heap = Map.empty,
        trace = [Ev_UnmapViewOfFile 7 True, Ev_CloseHandle 9 True, Ev_free 8192]\<rparr>)"
    by (simp add: close_defs emit_def env_defs world0_def)
  from nClose_unguarded [where E = env_stale and address = 8192 and w = world0] raw1 raw2
  obtain b1 b2 where "new_events world0 (final_world (nClose env_stale 8192 world0)) =
       [Ev_UnmapViewOfFile 7 b1, Ev_CloseHandle 9 b2, Ev_free 8192]"
    by blast
  then have raw3: "new_events world0 (final_world (nClose env_stale 8192 world0)) =
       [Ev_UnmapViewOfFile 7 True, Ev_CloseHandle 9 True, Ev_free 8192]"
    by (simp add: raw_run new_events_world0 final_world_def)
  have null1: "load_linkedMem env_null_readable NULL world0 = Some 7"
    by (simp add: load_linkedMem_def env_defs world0_def)
  have null2: "load_hFileMapping env_null_readable NULL
      (snd (UnmapViewOfFile env_null_readable 7 world0)) = Some 9"
    by (simp add: load_hFileMapping_def call_simps heap_emit env_defs world0_def)
  have null_run: "nClose env_null_readable NULL world0 =
     Inr ((), \<lparr>heap = Map.empty,
        trace = [Ev_UnmapViewOfFile 7 True, Ev_CloseHandle 9 True, Ev_free NULL]\<rparr>)"
    by (simp add: close_defs emit_def env_defs world0_def)
  from nClose_unguarded [where E = env_null_readable and address = NULL and w = world0]
    null1 null2
  obtain c1 c2 where "new_events world0 (final_world (nClose env_null_readable NULL world0)) =
       [Ev_UnmapViewOfFile 7 c1, Ev_CloseHandle 9 c2, Ev_free NULL]"
    by blast
  then have null3: "new_events world0 (final_world (nClose env_null_readable NULL world0)) =
       [Ev_UnmapViewOfFile 7 True, Ev_CloseHandle 9 True, Ev_free NULL]"
    by (simp add: null_run new_events_world0 final_world_def)
  have trap1: "load_linkedMem env_stale NULL world0 = None"
    by (simp add: load_linkedMem_def env_defs world0_def)
  from nClose_unguarded [where E = env_stale and address = NULL and w = world0] trap1
  have trap2: "nClose env_stale NULL world0 = Inl (InvalidDereference NULL, world0)"
    by blast
  have live: "nClose env_stale 512 world1 =
     Inr ((), \<lparr>heap = Map.empty,
               trace = [Ev_UnmapViewOfFile 4096 True, Ev_CloseHandle 40 True, Ev_free 512]\<rparr>)"
    by (simp add: close_world1 env_defs)
  have again: "nClose env_stale 512
      \<lparr>heap = Map.empty,
        trace = [Ev_UnmapViewOfFile 4096 True, Ev_CloseHandle 40 True, Ev_free 512]\<rparr> =
     Inl (InvalidFree 512, \<lparr>heap = Map.empty,
        trace = [Ev_UnmapViewOfFile 4096 True, Ev_CloseHandle 40 True, Ev_free 512,
                 Ev_UnmapViewOfFile 4096 True, Ev_CloseHandle 40 True, Ev_free 512]\<rparr>)"
    by (simp add: close_defs emit_def env_defs)
  have trace1: "trace world1 = []"
    by (simp add: world1_def)
  have twice: "\<exists>w'. nClose env_stale 512 world1 = Inr ((), w')
        \<and> new_events world1 w' = [Ev_UnmapViewOfFile 4096 True, Ev_CloseHandle 40 True, Ev_free 512]
        \<and> heap w' 512 = None
        \<and> new_events w' (final_world (nClose env_stale 512 w')) =
            [Ev_UnmapViewOfFile 4096 True, Ev_CloseHandle 40 True, Ev_free 512]"
    by (simp add: live again new_events_def final_world_def trace1)
  from raw1 raw2 raw3 null1 null2 null3 trap1 trap2 twice
  show ?thesis by (intro conjI)
qed

end
